theory Spec2Isabelle
  imports Main
begin

section \<open>JavaScript values seen by the dispatcher\<close>

text \<open>
  The dispatcher of \<^verbatim>\<open>mcp-server.ts\<close> handles three kinds of untyped values: the parsed
  request envelope, the value a tool resolves with, and the value a tool throws. They are
  modelled as plain data: \<open>VObj\<close> carries the own properties of a plain object in
  enumeration order (keys distinct, none of them callable). Functions, symbols and objects
  with a prototype of their own are left out.

  The dispatcher never computes with a number: it copies it, prints it
  (\<^verbatim>\<open>Number::toString\<close>, in a template literal) or serialises it, and
  \<^verbatim>\<open>JSON.stringify\<close> writes a finite number exactly as \<^verbatim>\<open>Number::toString\<close> prints it.
  A finite number is therefore carried as that text: \<open>Finite ''1''\<close>, \<open>Finite ''0.5''\<close>,
  \<open>Finite ''1e+21''\<close>. This covers every finite number, fractional or large, with the
  text the platform prints for it.
\<close>

datatype jsnum = Finite string | NaN | PosInfinity | NegInfinity

datatype jsval =
    VUndefined
  | VNull
  | VBool bool
  | VNum jsnum
  | VStr string
  | VBigInt int
  | VArr "jsval list"
  | VObj "(string \<times> jsval) list"

text \<open>
  A JSON document, the text that \<^verbatim>\<open>JSON.stringify\<close> writes, up to its concrete syntax;
  \<open>JNum\<close> carries the text of a finite number.
\<close>

datatype json =
    JNull
  | JBool bool
  | JNum string
  | JStr string
  | JArr "json list"
  | JObj "(string \<times> json) list"

text \<open>
  A thrown value: \<open>ErrorObj m\<close> is any value for which \<^verbatim>\<open>instanceof Error\<close> holds
  (Error, TypeError, SyntaxError) with \<^verbatim>\<open>message\<close> \<open>m\<close>; \<open>NonError v\<close> is any other
  thrown value. The messages of the errors the platform throws are V8's.
\<close>

datatype thrown = ErrorObj string | NonError jsval

subsection \<open>Property read\<close>

text \<open>
  \<^verbatim>\<open>request.type\<close> and the destructuring \<^verbatim>\<open>const { tool_name, parameters } = request\<close>:
  reading a property of \<^verbatim>\<open>null\<close> or \<^verbatim>\<open>undefined\<close> throws a TypeError, a missing
  property reads as \<^verbatim>\<open>undefined\<close>. The three names read by the dispatcher are not
  defined on any built-in prototype, so primitives and arrays read as \<^verbatim>\<open>undefined\<close>.
\<close>

fun Get :: "jsval \<Rightarrow> string \<Rightarrow> thrown + jsval" where
  "Get VUndefined k = Inl (ErrorObj ''Cannot read properties of undefined'')"
| "Get VNull k = Inl (ErrorObj ''Cannot read properties of null'')"
| "Get (VObj ps) k = Inr (case map_of ps k of Some v \<Rightarrow> v | None \<Rightarrow> VUndefined)"
| "Get v k = Inr VUndefined"

subsection \<open>String conversion\<close>

text \<open>\<^verbatim>\<open>Number::toString\<close>.\<close>

fun Number_toString :: "jsnum \<Rightarrow> string" where
  "Number_toString (Finite s) = s"
| "Number_toString NaN = ''NaN''"
| "Number_toString PosInfinity = ''Infinity''"
| "Number_toString NegInfinity = ''-Infinity''"

text \<open>\<^verbatim>\<open>BigInt::toString\<close>: every digit of the integer, in decimal.\<close>

definition digit_char :: "nat \<Rightarrow> char" where
  "digit_char d = ''0123456789'' ! d"

function show_nat :: "nat \<Rightarrow> string" where
  "show_nat n = (if n < 10 then [digit_char n] else show_nat (n div 10) @ [digit_char (n mod 10)])"
  by pat_completeness auto
termination
  by (relation "measure id") auto

definition show_int :: "int \<Rightarrow> string" where
  "show_int i = (if i < 0 then CHR ''-'' # show_nat (nat (- i)) else show_nat (nat i))"

fun join_comma :: "string list \<Rightarrow> string" where
  "join_comma [] = []"
| "join_comma [s] = s"
| "join_comma (s # t # ss) = s @ '','' @ join_comma (t # ss)"

text \<open>
  \<^verbatim>\<open>String(v)\<close> and the conversion of a template literal \<^verbatim>\<open>`${v}`\<close>. An array is joined
  with commas, \<^verbatim>\<open>null\<close> and \<^verbatim>\<open>undefined\<close> elements printing as the empty string. A plain
  object prints through \<^verbatim>\<open>Object.prototype.toString\<close>, unless it has an own property
  \<^verbatim>\<open>toString\<close>: that one shadows the inherited method, is not callable, and
  \<^verbatim>\<open>valueOf\<close> (own or inherited) gives no primitive, so the conversion throws a TypeError.
\<close>

fun ToString :: "jsval \<Rightarrow> thrown + string"
  and elem_strings :: "jsval list \<Rightarrow> thrown + string list" where
  "ToString VUndefined = Inr ''undefined''"
| "ToString VNull = Inr ''null''"
| "ToString (VBool b) = Inr (if b then ''true'' else ''false'')"
| "ToString (VNum n) = Inr (Number_toString n)"
| "ToString (VStr s) = Inr s"
| "ToString (VBigInt n) = Inr (show_int n)"
| "ToString (VArr xs) =
     (case elem_strings xs of Inl e \<Rightarrow> Inl e | Inr ss \<Rightarrow> Inr (join_comma ss))"
| "ToString (VObj ps) =
     (if ''toString'' \<in> set (map fst ps)
      then Inl (ErrorObj ''Cannot convert object to primitive value'')
      else Inr ''[object Object]'')"
| "elem_strings [] = Inr []"
| "elem_strings (x # xs) =
     (case (if x = VUndefined \<or> x = VNull then Inr [] else ToString x) of
        Inl e \<Rightarrow> Inl e
      | Inr s \<Rightarrow> (case elem_strings xs of Inl e \<Rightarrow> Inl e | Inr ss \<Rightarrow> Inr (s # ss)))"

subsection \<open>JSON serialisation\<close>

text \<open>
  \<^verbatim>\<open>JSON.stringify\<close>: \<^verbatim>\<open>undefined\<close> has no serialisation (\<open>None\<close>), so a property
  holding it is left out of its object and an array element holding it is written
  \<^verbatim>\<open>null\<close>; a number that is not finite is written \<^verbatim>\<open>null\<close>; a BigInt throws a
  TypeError.
\<close>

fun SerializeJSONProperty :: "jsval \<Rightarrow> thrown + json option"
  and SerializeJSONArray :: "jsval list \<Rightarrow> thrown + json list"
  and SerializeJSONObject :: "(string \<times> jsval) list \<Rightarrow> thrown + (string \<times> json) list" where
  "SerializeJSONProperty VUndefined = Inr None"
| "SerializeJSONProperty VNull = Inr (Some JNull)"
| "SerializeJSONProperty (VBool b) = Inr (Some (JBool b))"
| "SerializeJSONProperty (VNum n) =
     Inr (Some (case n of Finite s \<Rightarrow> JNum s | _ \<Rightarrow> JNull))"
| "SerializeJSONProperty (VStr s) = Inr (Some (JStr s))"
| "SerializeJSONProperty (VBigInt n) = Inl (ErrorObj ''Do not know how to serialize a BigInt'')"
| "SerializeJSONProperty (VArr xs) =
     (case SerializeJSONArray xs of Inl e \<Rightarrow> Inl e | Inr js \<Rightarrow> Inr (Some (JArr js)))"
| "SerializeJSONProperty (VObj ps) =
     (case SerializeJSONObject ps of Inl e \<Rightarrow> Inl e | Inr qs \<Rightarrow> Inr (Some (JObj qs)))"
| "SerializeJSONArray [] = Inr []"
| "SerializeJSONArray (x # xs) =
     (case SerializeJSONProperty x of
        Inl e \<Rightarrow> Inl e
      | Inr r \<Rightarrow>
          (case SerializeJSONArray xs of
             Inl e \<Rightarrow> Inl e
           | Inr js \<Rightarrow> Inr ((case r of None \<Rightarrow> JNull | Some j \<Rightarrow> j) # js)))"
| "SerializeJSONObject [] = Inr []"
| "SerializeJSONObject ((k, v) # ps) =
     (case SerializeJSONProperty v of
        Inl e \<Rightarrow> Inl e
      | Inr r \<Rightarrow>
          (case SerializeJSONObject ps of
             Inl e \<Rightarrow> Inl e
           | Inr qs \<Rightarrow> Inr ((case r of None \<Rightarrow> [] | Some j \<Rightarrow> [(k, j)]) @ qs)))"

definition JSON_stringify :: "jsval \<Rightarrow> thrown + json option" where
  "JSON_stringify v = SerializeJSONProperty v"

text \<open>The plain JSON data among the values: what \<^verbatim>\<open>JSON.parse\<close> can produce.\<close>

fun of_json :: "json \<Rightarrow> jsval"
  and of_json_list :: "json list \<Rightarrow> jsval list"
  and of_json_props :: "(string \<times> json) list \<Rightarrow> (string \<times> jsval) list" where
  "of_json JNull = VNull"
| "of_json (JBool b) = VBool b"
| "of_json (JNum s) = VNum (Finite s)"
| "of_json (JStr s) = VStr s"
| "of_json (JArr js) = VArr (of_json_list js)"
| "of_json (JObj qs) = VObj (of_json_props qs)"
| "of_json_list [] = []"
| "of_json_list (j # js) = of_json j # of_json_list js"
| "of_json_props [] = []"
| "of_json_props ((k, j) # qs) = (k, of_json j) # of_json_props qs"

text \<open>
  \<^verbatim>\<open>JSON.parse\<close> is the platform's: a function from the body text to the parsed value, or
  to the SyntaxError it throws. \<open>parse_table\<close> is a parser known on finitely many texts.
\<close>

type_synonym parser = "string \<Rightarrow> thrown + jsval"

definition parse_table :: "(string \<times> jsval) list \<Rightarrow> parser" where
  "parse_table tbl s =
     (case map_of tbl s of
        Some v \<Rightarrow> Inr v
      | None \<Rightarrow> Inl (ErrorObj ''Unexpected token''))"

section \<open>The tool registry\<close>

text \<open>
  The promise returned by \<^verbatim>\<open>execute\<close> resolves, rejects (a synchronous throw inside the
  \<^verbatim>\<open>try\<close> block is caught the same way) or never settles. What a tool does inside
  \<^verbatim>\<open>execute\<close> is its own business; the dispatcher sees only this outcome.
\<close>

datatype settled = Resolved jsval | Failed thrown | Unsettled

record McpTool =
  name :: string
  description :: string
  parameters :: "(string \<times> jsval) list"
  execute :: "jsval \<Rightarrow> settled"

record McpServerConfig =
  openaiApiKey :: string
  rpcUrl :: string
  solanaPrivateKey :: string

text \<open>
  \<^verbatim>\<open>tools: McpTool[]\<close> is a reference to an array object. A heap gives the contents of
  every tool array by its address.
\<close>

type_synonym array_ref = nat

type_synonym heap = "array_ref \<Rightarrow> McpTool list"

record McpServerOptions =
  tools :: array_ref
  config :: McpServerConfig

section \<open>Requests, responses and observable effects\<close>

text \<open>
  An incoming request: its method (\<^verbatim>\<open>req.method\<close>) and its body stream, which delivers
  \<open>chunks\<close> and then either ends or fails with \<open>stream_error\<close>.
\<close>

record IncomingMessage =
  req_method :: string
  chunks :: "string list"
  stream_error :: "thrown option"

text \<open>
  Everything one call of \<^verbatim>\<open>handleRequest\<close> works on: the response it builds
  (\<open>statusCode\<close>, \<open>headers\<close>, the \<open>body\<close> handed to \<^verbatim>\<open>res.end\<close>, \<open>ended\<close>), the
  \<^verbatim>\<open>console.error\<close> lines, the tools it invoked with their arguments, the chunks it took
  from the request stream, and \<open>registry\<close>, the contents of the array that the closure
  variable \<^verbatim>\<open>tools\<close> refers to. Every statement of the handler that reads \<^verbatim>\<open>tools\<close>
  reads \<open>registry\<close>, and a statement that wrote to the array would write it.
\<close>

record exchange =
  statusCode :: nat
  headers :: "string \<rightharpoonup> string"
  body :: "json option"
  ended :: bool
  console :: "(string \<times> thrown) list"
  invoked :: "(McpTool \<times> jsval) list"
  consumed :: "string list"
  registry :: "McpTool list"

definition fresh :: exchange where
  "fresh = \<lparr>statusCode = 200, headers = Map.empty, body = None, ended = False,
            console = [], invoked = [], consumed = [], registry = []\<rparr>"

definition setHeader :: "string \<Rightarrow> string \<Rightarrow> exchange \<Rightarrow> exchange" where
  "setHeader k v x = x\<lparr>headers := (headers x)(k \<mapsto> v)\<rparr>"

definition end_response :: "json option \<Rightarrow> exchange \<Rightarrow> exchange" where
  "end_response d x = x\<lparr>body := d, ended := True\<rparr>"

definition console_error :: "string \<Rightarrow> thrown \<Rightarrow> exchange \<Rightarrow> exchange" where
  "console_error label e x = x\<lparr>console := console x @ [(label, e)]\<rparr>"

text \<open>
  How a (possibly asynchronous) function of the server finishes: it returns, it throws
  (an \<^verbatim>\<open>async\<close> function rejects), or it waits forever on a promise.
\<close>

datatype completion = Returns exchange | Throws thrown exchange | NeverSettles exchange

fun returned :: "completion \<Rightarrow> bool" where
  "returned (Returns x) = True"
| "returned c = False"

fun exchange_of :: "completion \<Rightarrow> exchange" where
  "exchange_of (Returns x) = x"
| "exchange_of (Throws e x) = x"
| "exchange_of (NeverSettles x) = x"

text \<open>\<^verbatim>\<open>res.end(JSON.stringify(v))\<close>: the argument is evaluated first and may throw.\<close>

definition end_json :: "jsval \<Rightarrow> exchange \<Rightarrow> completion" where
  "end_json v x =
     (case JSON_stringify v of
        Inl e \<Rightarrow> Throws e x
      | Inr d \<Rightarrow> Returns (end_response d x))"

section \<open>The dispatcher\<close>

definition PROTOCOL_VERSION :: string where
  "PROTOCOL_VERSION = ''0.1''"

definition toolSchema :: "McpTool \<Rightarrow> jsval" where
  "toolSchema tool =
     VObj [(''name'', VStr (name tool)),
           (''description'', VStr (description tool)),
           (''parameters'', VObj (parameters tool))]"

definition handleCapabilitiesRequest :: "exchange \<Rightarrow> completion" where
  "handleCapabilitiesRequest x =
     (let toolSchemas = VArr (map toolSchema (registry x));
          response = VObj [(''protocol_version'', VStr PROTOCOL_VERSION),
                           (''capabilities'', VObj [(''tools'', toolSchemas)])];
          x1 = x\<lparr>statusCode := 200\<rparr>;
          x2 = setHeader ''Content-Type'' ''application/json'' x1
      in end_json response x2)"

text \<open>\<^verbatim>\<open>error instanceof Error ? error.message : String(error)\<close>\<close>

definition failure_message :: "thrown \<Rightarrow> thrown + string" where
  "failure_message error = (case error of ErrorObj m \<Rightarrow> Inr m | NonError v \<Rightarrow> ToString v)"

text \<open>The \<^verbatim>\<open>catch\<close> block of \<^verbatim>\<open>handleToolCallRequest\<close>.\<close>

definition tool_call_catch :: "jsval \<Rightarrow> thrown \<Rightarrow> exchange \<Rightarrow> completion" where
  "tool_call_catch tool_name error x =
     (case ToString tool_name of
        Inl e \<Rightarrow> Throws e x
      | Inr tn \<Rightarrow>
          (let x1 = console_error (''Error executing tool '' @ tn @ '':'') error x;
               x2 = x1\<lparr>statusCode := 500\<rparr>
           in case failure_message error of
                Inl e \<Rightarrow> Throws e x2
              | Inr msg \<Rightarrow>
                  end_json (VObj [(''error'',
                     VStr (''Error executing tool '' @ tn @ '': '' @ msg))]) x2))"

definition handleToolCallRequest :: "jsval \<Rightarrow> exchange \<Rightarrow> completion" where
  "handleToolCallRequest request x =
     (case Get request ''tool_name'' of
        Inl e \<Rightarrow> Throws e x
      | Inr tool_name \<Rightarrow>
     (case Get request ''parameters'' of
        Inl e \<Rightarrow> Throws e x
      | Inr params \<Rightarrow>
     (case find (\<lambda>t. VStr (name t) = tool_name) (registry x) of
        None \<Rightarrow>
          (let x1 = x\<lparr>statusCode := 404\<rparr>
           in case ToString tool_name of
                Inl e \<Rightarrow> Throws e x1
              | Inr tn \<Rightarrow> end_json (VObj [(''error'', VStr (''Tool not found: '' @ tn))]) x1)
      | Some tool \<Rightarrow>
          (let x1 = x\<lparr>invoked := invoked x @ [(tool, params)]\<rparr>
           in case execute tool params of
                Unsettled \<Rightarrow> NeverSettles x1
              | Failed error \<Rightarrow> tool_call_catch tool_name error x1
              | Resolved result \<Rightarrow>
                  (let response = VObj [(''result'', result)];
                       x2 = x1\<lparr>statusCode := 200\<rparr>;
                       x3 = setHeader ''Content-Type'' ''application/json'' x2
                   in case end_json response x3 of
                        Throws error x4 \<Rightarrow> tool_call_catch tool_name error x4
                      | done \<Rightarrow> done)))))"

text \<open>The \<^verbatim>\<open>try\<close> block of \<^verbatim>\<open>handleRequest\<close>, run on the accumulated body.\<close>

definition route :: "parser \<Rightarrow> string \<Rightarrow> exchange \<Rightarrow> completion" where
  "route JSON_parse text x =
     (case JSON_parse text of
        Inl e \<Rightarrow> Throws e x
      | Inr request \<Rightarrow>
     (case Get request ''type'' of
        Inl e \<Rightarrow> Throws e x
      | Inr ty \<Rightarrow>
          if ty = VStr ''capabilities'' then handleCapabilitiesRequest x
          else if ty = VStr ''tool_call'' then handleToolCallRequest request x
          else
            (let x1 = x\<lparr>statusCode := 400\<rparr>
             in case ToString ty of
                  Inl e \<Rightarrow> Throws e x1
                | Inr s \<Rightarrow> end_json (VObj [(''error'', VStr (''Unknown request type: '' @ s))]) x1)))"

text \<open>The three \<^verbatim>\<open>setHeader\<close> calls that open \<^verbatim>\<open>handleRequest\<close>.\<close>

definition cors_headers :: "exchange \<Rightarrow> exchange" where
  "cors_headers x =
     setHeader ''Access-Control-Allow-Headers'' ''Content-Type''
       (setHeader ''Access-Control-Allow-Methods'' ''GET, POST, OPTIONS''
          (setHeader ''Access-Control-Allow-Origin'' ''*'' x))"

text \<open>The \<^verbatim>\<open>catch\<close> block of \<^verbatim>\<open>handleRequest\<close>.\<close>

definition request_catch :: "thrown \<Rightarrow> exchange \<Rightarrow> completion" where
  "request_catch error x =
     (let x1 = console_error ''Error processing request:'' error x;
          x2 = x1\<lparr>statusCode := 400\<rparr>
      in end_json (VObj [(''error'', VStr ''Invalid request'')]) x2)"

text \<open>
  \<^verbatim>\<open>handleRequest\<close>, called while the array behind \<^verbatim>\<open>tools\<close> holds \<open>ts\<close>.
\<close>

definition handleRequest :: "parser \<Rightarrow> McpTool list \<Rightarrow> IncomingMessage \<Rightarrow> completion" where
  "handleRequest JSON_parse ts req =
     (let x1 = cors_headers (fresh\<lparr>registry := ts\<rparr>)
      in if req_method req = ''OPTIONS'' then
           Returns (end_response None (x1\<lparr>statusCode := 204\<rparr>))
         else if req_method req \<noteq> ''POST'' then
           end_json (VObj [(''error'', VStr ''Method not allowed'')]) (x1\<lparr>statusCode := 405\<rparr>)
         else
           (let x2 = x1\<lparr>consumed := chunks req\<rparr>
            in case stream_error req of
                 Some e \<Rightarrow> Throws e x2
               | None \<Rightarrow>
                   (case route JSON_parse (concat (chunks req)) x2 of
                      Throws error x3 \<Rightarrow> request_catch error x3
                    | done \<Rightarrow> done)))"

section \<open>Construction and the handler across requests\<close>

text \<open>
  \<^verbatim>\<open>createMcpServer\<close> destructures its options and returns the handler. No statement of
  it looks at the list or throws, so its result is never a thrown value (\<open>Inl\<close>). The
  \<^verbatim>\<open>config\<close> is taken and never read. The closure keeps the array it was given, not a
  copy: a call of the handler works on the array as it stands in the heap at that moment,
  and what the call leaves in \<open>registry\<close> is what the heap holds afterwards.

  A tool's \<^verbatim>\<open>execute\<close> is a function of its argument here: state that a tool keeps for
  itself is not state of the dispatcher.
\<close>

type_synonym handler = "heap \<Rightarrow> IncomingMessage \<Rightarrow> completion \<times> heap"

definition createMcpServer :: "parser \<Rightarrow> McpServerOptions \<Rightarrow> thrown + handler" where
  "createMcpServer JSON_parse opts =
     Inr (\<lambda>h req.
            let c = handleRequest JSON_parse (h (tools opts)) req
            in (c, h(tools opts := registry (exchange_of c))))"


section \<open>Sample tools and requests\<close>

text \<open>A \<^verbatim>\<open>POST\<close> request whose body arrives in one chunk.\<close>

definition post :: "string \<Rightarrow> IncomingMessage" where
  "post text = \<lparr>req_method = ''POST'', chunks = [text], stream_error = None\<rparr>"

text \<open>The tool of the specification's scenario: \<^verbatim>\<open>echo\<close> resolves with its argument.\<close>

definition echo_tool :: McpTool where
  "echo_tool = \<lparr>name = ''echo'', description = ''Returns its input'',
       parameters = [(''type'', VStr ''object'')],
       execute = (\<lambda>params. Resolved params)\<rparr>"

text \<open>Two tools registered under one name, resolving with different values.\<close>

definition version_tool :: McpTool where
  "version_tool = \<lparr>name = ''version'', description = ''Registered first'',
       parameters = [],
       execute = (\<lambda>params. Resolved (VStr ''1.0''))\<rparr>"

definition version_shadow :: McpTool where
  "version_shadow = \<lparr>name = ''version'', description = ''Registered later'',
       parameters = [],
       execute = (\<lambda>params. Resolved (VStr ''2.0''))\<rparr>"

text \<open>A tool that resolves with a BigInt, as a lamport balance would be.\<close>

definition balance_tool :: McpTool where
  "balance_tool = \<lparr>name = ''balance'', description = ''Lamports held'',
       parameters = [(''type'', VStr ''object'')],
       execute = (\<lambda>params. Resolved (VBigInt 5000000000))\<rparr>"

text \<open>A tool whose declared schema bounds a field by a BigInt.\<close>

definition stake_tool :: McpTool where
  "stake_tool = \<lparr>name = ''stake'', description = ''Stakes lamports'',
       parameters = [(''type'', VStr ''object''), (''maximum'', VBigInt 18446744073709551615)],
       execute = (\<lambda>params. Resolved VNull)\<rparr>"

text \<open>A tool that rejects with an Error, as the wallet tools do on a bad address.\<close>

definition failing_tool :: McpTool where
  "failing_tool = \<lparr>name = ''fetch_wallet_data'', description = ''Fetches wallet data'',
       parameters = [(''type'', VStr ''object'')],
       execute = (\<lambda>params. Failed (ErrorObj ''Invalid Solana wallet address''))\<rparr>"

text \<open>A tool that rejects with the plain object \<^verbatim>\<open>{toString: null}\<close>.\<close>

definition opaque_failing_tool :: McpTool where
  "opaque_failing_tool = \<lparr>name = ''opaque'', description = ''Rejects with an object'',
       parameters = [],
       execute = (\<lambda>params. Failed (NonError (VObj [(''toString'', VNull)])))\<rparr>"

text \<open>The bodies used below, with the values \<^verbatim>\<open>JSON.parse\<close> gives for them.\<close>

definition body_capabilities :: string where
  \<open>body_capabilities = ''{"type":"capabilities"}''\<close>

definition body_echo :: string where
  \<open>body_echo = ''{"type":"tool_call","tool_name":"echo","parameters":{"x":1}}''\<close>

definition body_balance :: string where
  \<open>body_balance = ''{"type":"tool_call","tool_name":"balance","parameters":{}}''\<close>

definition body_fetch :: string where
  \<open>body_fetch = ''{"type":"tool_call","tool_name":"fetch_wallet_data","parameters":{}}''\<close>

definition body_opaque :: string where
  \<open>body_opaque = ''{"type":"tool_call","tool_name":"opaque","parameters":{}}''\<close>

definition body_missing :: string where
  \<open>body_missing = ''{"type":"tool_call","tool_name":"missing","parameters":{}}''\<close>

definition body_object_name :: string where
  \<open>body_object_name = ''{"type":"tool_call","tool_name":{"toString":1}}''\<close>

definition body_number_name :: string where
  \<open>body_number_name = ''{"type":"tool_call","tool_name":1e21}''\<close>

definition body_version :: string where
  \<open>body_version = ''{"type":"tool_call","tool_name":"version","parameters":{"verbose":true}}''\<close>

definition body_ping :: string where
  \<open>body_ping = ''{"type":"ping"}''\<close>

definition body_object_type :: string where
  \<open>body_object_type = ''{"type":{"toString":1}}''\<close>

definition body_null :: string where
  \<open>body_null = ''null''\<close>

definition body_truncated :: string where
  \<open>body_truncated = ''{"type":''\<close>

definition sample_parse :: parser where
  "sample_parse = parse_table
     [(body_capabilities, VObj [(''type'', VStr ''capabilities'')]),
      (body_echo, VObj [(''type'', VStr ''tool_call''), (''tool_name'', VStr ''echo''),
                        (''parameters'', VObj [(''x'', VNum (Finite ''1''))])]),
      (body_balance, VObj [(''type'', VStr ''tool_call''), (''tool_name'', VStr ''balance''),
                           (''parameters'', VObj [])]),
      (body_fetch, VObj [(''type'', VStr ''tool_call''), (''tool_name'', VStr ''fetch_wallet_data''),
                         (''parameters'', VObj [])]),
      (body_opaque, VObj [(''type'', VStr ''tool_call''), (''tool_name'', VStr ''opaque''),
                          (''parameters'', VObj [])]),
      (body_missing, VObj [(''type'', VStr ''tool_call''), (''tool_name'', VStr ''missing''),
                           (''parameters'', VObj [])]),
      (body_object_name, VObj [(''type'', VStr ''tool_call''),
                               (''tool_name'', VObj [(''toString'', VNum (Finite ''1''))])]),
      (body_number_name, VObj [(''type'', VStr ''tool_call''),
                               (''tool_name'', VNum (Finite ''1e+21''))]),
      (body_version, VObj [(''type'', VStr ''tool_call''), (''tool_name'', VStr ''version''),
                           (''parameters'', VObj [(''verbose'', VBool True)])]),
      (body_ping, VObj [(''type'', VStr ''ping'')]),
      (body_object_type, VObj [(''type'', VObj [(''toString'', VNum (Finite ''1''))])]),
      (body_null, VNull)]"

text \<open>
  A heap holding one tool array, at address 0, and the options that refer to it: what
  \<^verbatim>\<open>index.ts\<close> builds when it passes an array literal to \<^verbatim>\<open>createMcpServer\<close>.
\<close>

definition heap_with :: "McpTool list \<Rightarrow> heap" where
  "heap_with ts = (\<lambda>a. if a = 0 then ts else [])"

definition sample_options :: McpServerOptions where
  "sample_options = \<lparr>tools = 0,
       config = \<lparr>openaiApiKey = [], rpcUrl = [], solanaPrivateKey = []\<rparr>\<rparr>"

section \<open>Facts about the platform functions and the request path\<close>

lemma serialize_of_json:
  "SerializeJSONProperty (of_json j) = Inr (Some j)"
  "SerializeJSONArray (of_json_list js) = Inr js"
  "SerializeJSONObject (of_json_props qs) = Inr qs"
  by (induction j and js and qs rule: of_json_of_json_list_of_json_props.induct) simp_all

lemma end_json_error:
  "end_json (VObj [(''error'', VStr m)]) x =
     Returns (end_response (Some (JObj [(''error'', JStr m)])) x)"
  by (simp add: end_json_def JSON_stringify_def)

lemma request_catch_returns:
  "request_catch e x =
     Returns (end_response (Some (JObj [(''error'', JStr ''Invalid request'')]))
       ((console_error ''Error processing request:'' e x)\<lparr>statusCode := 400\<rparr>))"
  by (simp add: request_catch_def end_json_error)

lemma handleRequest_POST:
  assumes "req_method req = ''POST''" "stream_error req = None"
  shows "handleRequest JSON_parse ts req =
     (case route JSON_parse (concat (chunks req))
             ((cors_headers (fresh\<lparr>registry := ts\<rparr>))\<lparr>consumed := chunks req\<rparr>) of
        Throws error x3 \<Rightarrow> request_catch error x3
      | Returns x \<Rightarrow> Returns x
      | NeverSettles x \<Rightarrow> NeverSettles x)"
  using assms by (simp add: handleRequest_def split: completion.splits)

lemma route_tool_call:
  assumes "JSON_parse text = Inr request" "Get request ''type'' = Inr (VStr ''tool_call'')"
  shows "route JSON_parse text x = handleToolCallRequest request x"
  using assms by (simp add: route_def)

lemma route_capabilities:
  assumes "JSON_parse text = Inr request" "Get request ''type'' = Inr (VStr ''capabilities'')"
  shows "route JSON_parse text x = handleCapabilitiesRequest x"
  using assms by (simp add: route_def)

lemma Get_VStr_object:
  assumes "Get v k = Inr (VStr s)"
  shows "\<exists>ps. v = VObj ps"
  using assms by (cases v) simp_all

lemma serialize_toolSchemas:
  assumes "list_all2 (\<lambda>t s. SerializeJSONObject (parameters t) = Inr s) ts schemas"
  shows "SerializeJSONArray (map toolSchema ts) =
           Inr (map2 (\<lambda>t s. JObj [(''name'', JStr (name t)),
                                   (''description'', JStr (description t)),
                                   (''parameters'', JObj s)]) ts schemas)"
  using assms by (induction rule: list_all2_induct) (simp_all add: toolSchema_def)

lemma find_first_named:
  assumes "\<forall>t \<in> set before. name t \<noteq> name tool"
  shows "find (\<lambda>t. VStr (name t) = VStr (name tool)) (before @ tool # after) = Some tool"
  using assms by (induction before) simp_all

lemma registry_start:
  "registry ((cors_headers (fresh\<lparr>registry := ts\<rparr>))\<lparr>consumed := cs\<rparr>) = ts"
  by (simp add: cors_headers_def setHeader_def)

text \<open>A tool call whose tool is found, by what \<^verbatim>\<open>execute\<close> does.\<close>

lemma found_resolved:
  assumes "req_method req = ''POST''" and "stream_error req = None"
    and "JSON_parse (concat (chunks req)) = Inr request"
    and "Get request ''type'' = Inr (VStr ''tool_call'')"
    and "Get request ''tool_name'' = Inr tool_name"
    and "Get request ''parameters'' = Inr params"
    and "find (\<lambda>t. VStr (name t) = tool_name) ts = Some tool"
    and "execute tool params = Resolved v"
    and "JSON_stringify (VObj [(''result'', v)]) = Inr doc"
  shows "handleRequest JSON_parse ts req =
     Returns (end_response doc (setHeader ''Content-Type'' ''application/json''
       ((cors_headers (fresh\<lparr>registry := ts\<rparr>))\<lparr>consumed := chunks req,
          invoked := [(tool, params)], statusCode := 200\<rparr>)))"
proof -
  have "handleToolCallRequest request
          ((cors_headers (fresh\<lparr>registry := ts\<rparr>))\<lparr>consumed := chunks req\<rparr>) =
     Returns (end_response doc (setHeader ''Content-Type'' ''application/json''
       ((cors_headers (fresh\<lparr>registry := ts\<rparr>))\<lparr>consumed := chunks req,
          invoked := [(tool, params)], statusCode := 200\<rparr>)))"
    using assms(5-9)
    by (simp add: handleToolCallRequest_def end_json_def cors_headers_def setHeader_def fresh_def)
  then show ?thesis
    using assms(1-4) by (simp add: handleRequest_POST route_tool_call)
qed

lemma found_failed:
  assumes "req_method req = ''POST''" and "stream_error req = None"
    and "JSON_parse (concat (chunks req)) = Inr request"
    and "Get request ''type'' = Inr (VStr ''tool_call'')"
    and "Get request ''tool_name'' = Inr tool_name"
    and "Get request ''parameters'' = Inr params"
    and "find (\<lambda>t. VStr (name t) = tool_name) ts = Some tool"
    and "execute tool params = Failed err"
  shows "handleRequest JSON_parse ts req =
     (let x2 = (console_error (''Error executing tool '' @ name tool @ '':'') err
                 ((cors_headers (fresh\<lparr>registry := ts\<rparr>))\<lparr>consumed := chunks req,
                    invoked := [(tool, params)]\<rparr>))\<lparr>statusCode := 500\<rparr>
      in case failure_message err of
           Inl e \<Rightarrow> request_catch e x2
         | Inr msg \<Rightarrow>
             Returns (end_response (Some (JObj [(''error'',
                 JStr (''Error executing tool '' @ name tool @ '': '' @ msg))])) x2))"
proof -
  from assms(7) have tn: "tool_name = VStr (name tool)"
    by (auto simp: find_Some_iff)
  have "handleToolCallRequest request
          ((cors_headers (fresh\<lparr>registry := ts\<rparr>))\<lparr>consumed := chunks req\<rparr>) =
        tool_call_catch tool_name err
          ((cors_headers (fresh\<lparr>registry := ts\<rparr>))\<lparr>consumed := chunks req,
              invoked := [(tool, params)]\<rparr>)"
    using assms(5-8)
    by (simp add: handleToolCallRequest_def cors_headers_def setHeader_def fresh_def)
  then show ?thesis
    using assms(1-4)
    by (simp add: handleRequest_POST route_tool_call tn tool_call_catch_def end_json_error
        Let_def split: sum.splits)
qed

lemma found_unsettled:
  assumes "req_method req = ''POST''" and "stream_error req = None"
    and "JSON_parse (concat (chunks req)) = Inr request"
    and "Get request ''type'' = Inr (VStr ''tool_call'')"
    and "Get request ''tool_name'' = Inr tool_name"
    and "Get request ''parameters'' = Inr params"
    and "find (\<lambda>t. VStr (name t) = tool_name) ts = Some tool"
    and "execute tool params = Unsettled"
  shows "handleRequest JSON_parse ts req =
     NeverSettles ((cors_headers (fresh\<lparr>registry := ts\<rparr>))\<lparr>consumed := chunks req,
                     invoked := [(tool, params)]\<rparr>)"
proof -
  have "handleToolCallRequest request
          ((cors_headers (fresh\<lparr>registry := ts\<rparr>))\<lparr>consumed := chunks req\<rparr>) =
        NeverSettles ((cors_headers (fresh\<lparr>registry := ts\<rparr>))\<lparr>consumed := chunks req,
                     invoked := [(tool, params)]\<rparr>)"
    using assms(5-8)
    by (simp add: handleToolCallRequest_def cors_headers_def setHeader_def fresh_def)
  then show ?thesis
    using assms(1-4) by (simp add: handleRequest_POST route_tool_call)
qed

text \<open>No path of the handler writes to the array behind \<^verbatim>\<open>tools\<close>.\<close>

lemma registry_end_json: "registry (exchange_of (end_json v x)) = registry x"
  by (simp add: end_json_def end_response_def split: sum.splits)

lemma registry_request_catch: "registry (exchange_of (request_catch e x)) = registry x"
  by (simp add: request_catch_def registry_end_json console_error_def)

lemma registry_tool_call_catch:
  "registry (exchange_of (tool_call_catch tool_name e x)) = registry x"
  by (simp add: tool_call_catch_def registry_end_json console_error_def Let_def
      split: sum.splits)

lemma registry_handleCapabilitiesRequest:
  "registry (exchange_of (handleCapabilitiesRequest x)) = registry x"
  by (simp add: handleCapabilitiesRequest_def registry_end_json setHeader_def)

lemma registry_handleToolCallRequest:
  "registry (exchange_of (handleToolCallRequest request x)) = registry x"
proof -
  have resolved: "registry (exchange_of
      (case end_json v y of Throws error x4 \<Rightarrow> tool_call_catch tn error x4
       | Returns z \<Rightarrow> Returns z | NeverSettles z \<Rightarrow> NeverSettles z)) = registry y" for v y tn
    using registry_end_json [of v y]
    by (cases "end_json v y") (simp_all add: registry_tool_call_catch)
  show ?thesis
    by (simp add: handleToolCallRequest_def registry_end_json registry_tool_call_catch
        resolved setHeader_def Let_def
        split: sum.splits option.splits settled.splits)
qed

lemma registry_route: "registry (exchange_of (route JSON_parse text x)) = registry x"
  by (simp add: route_def registry_handleCapabilitiesRequest registry_handleToolCallRequest
      registry_end_json Let_def split: sum.splits)

lemma registry_handleRequest:
  "registry (exchange_of (handleRequest JSON_parse ts req)) = ts"
proof -
  have routed: "registry (exchange_of
      (case route JSON_parse s y of Throws error x3 \<Rightarrow> request_catch error x3
       | Returns z \<Rightarrow> Returns z | NeverSettles z \<Rightarrow> NeverSettles z)) = registry y" for s y
    using registry_route [of JSON_parse s y]
    by (cases "route JSON_parse s y") (simp_all add: registry_request_catch)
  show ?thesis
    by (simp add: handleRequest_def Let_def routed registry_end_json end_response_def
        cors_headers_def setHeader_def split: option.splits completion.splits)
qed



lemmas sample_bodies =
  body_capabilities_def body_echo_def body_balance_def body_fetch_def body_opaque_def
  body_missing_def body_object_name_def body_number_name_def body_version_def body_ping_def
  body_object_type_def body_null_def body_truncated_def

lemmas dispatcher_defs =
  handleRequest_def route_def handleToolCallRequest_def handleCapabilitiesRequest_def
  tool_call_catch_def request_catch_def failure_message_def end_json_def JSON_stringify_def
  end_response_def console_error_def setHeader_def cors_headers_def fresh_def toolSchema_def
  PROTOCOL_VERSION_def

lemmas sample_defs =
  post_def sample_parse_def parse_table_def sample_bodies echo_tool_def version_tool_def
  version_shadow_def balance_tool_def stake_tool_def failing_tool_def opaque_failing_tool_def

lemmas exchange_simps =
  end_response_def console_error_def setHeader_def cors_headers_def fresh_def

text \<open>A tool that is found is invoked, once, whatever comes of it.\<close>

lemma invoked_end_json: "invoked (exchange_of (end_json v x)) = invoked x"
  by (simp add: end_json_def end_response_def split: sum.splits)

lemma invoked_request_catch: "invoked (exchange_of (request_catch e x)) = invoked x"
  by (simp add: request_catch_def invoked_end_json console_error_def)

lemma invoked_tool_call_catch:
  "invoked (exchange_of (tool_call_catch tool_name e x)) = invoked x"
  by (simp add: tool_call_catch_def invoked_end_json console_error_def Let_def
      split: sum.splits)

lemma invoked_found_tool_call:
  assumes "Get request ''tool_name'' = Inr tool_name"
    and "Get request ''parameters'' = Inr params"
    and "find (\<lambda>t. VStr (name t) = tool_name) (registry x) = Some tool"
  shows "invoked (exchange_of (handleToolCallRequest request x)) = invoked x @ [(tool, params)]"
proof -
  have resolved: "invoked (exchange_of
      (case end_json v y of Throws error x4 \<Rightarrow> tool_call_catch tn error x4
       | Returns z \<Rightarrow> Returns z | NeverSettles z \<Rightarrow> NeverSettles z)) = invoked y" for v y tn
    using invoked_end_json [of v y]
    by (cases "end_json v y") (simp_all add: invoked_tool_call_catch)
  show ?thesis
    using assms
    by (simp add: handleToolCallRequest_def invoked_tool_call_catch resolved setHeader_def
        Let_def split: settled.splits)
qed

lemma invoked_found:
  assumes "req_method req = ''POST''" and "stream_error req = None"
    and "JSON_parse (concat (chunks req)) = Inr request"
    and "Get request ''type'' = Inr (VStr ''tool_call'')"
    and "Get request ''tool_name'' = Inr tool_name"
    and "Get request ''parameters'' = Inr params"
    and "find (\<lambda>t. VStr (name t) = tool_name) ts = Some tool"
  shows "invoked (exchange_of (handleRequest JSON_parse ts req)) = [(tool, params)]"
proof -
  let ?x0 = "(cors_headers (fresh\<lparr>registry := ts\<rparr>))\<lparr>consumed := chunks req\<rparr>"
  have "find (\<lambda>t. VStr (name t) = tool_name) (registry ?x0) = Some tool"
    using assms(7) by (simp add: registry_start)
  from invoked_found_tool_call [OF assms(5,6) this]
  have call: "invoked (exchange_of (handleToolCallRequest request ?x0)) = [(tool, params)]"
    by (simp add: exchange_simps)
  show ?thesis
    using call assms(1-4)
    by (cases "handleToolCallRequest request ?x0")
       (simp_all add: handleRequest_POST route_tool_call invoked_request_catch)
qed

section \<open>Successful tool calls\<close>

text \<open>
  Claim C1, as the code has it. A \<^verbatim>\<open>POST\<close> request whose body parses to an envelope of
  type \<^verbatim>\<open>tool_call\<close>, whose \<^verbatim>\<open>tool_name\<close> finds a registered tool and whose
  \<^verbatim>\<open>execute\<close> resolves with a value \<open>v\<close> that \<^verbatim>\<open>JSON.stringify\<close> can serialise, is
  answered with status 200, content type \<^verbatim>\<open>application/json\<close> and the serialisation of
  \<^verbatim>\<open>{result: v}\<close> as its body; when \<open>v\<close> is plain JSON data the body is \<^verbatim>\<open>{result: v}\<close>
  with \<open>v\<close> itself, untransformed. Exactly that one tool is invoked and nothing is logged.
\<close>

theorem tool_call_success:
  assumes "req_method req = ''POST''" and "stream_error req = None"
    and "JSON_parse (concat (chunks req)) = Inr request"
    and "Get request ''type'' = Inr (VStr ''tool_call'')"
    and "Get request ''tool_name'' = Inr tool_name"
    and "Get request ''parameters'' = Inr params"
    and "find (\<lambda>t. VStr (name t) = tool_name) ts = Some tool"
    and "execute tool params = Resolved v"
    and "JSON_stringify (VObj [(''result'', v)]) = Inr doc"
  shows "\<exists>x. handleRequest JSON_parse ts req = Returns x \<and> statusCode x = 200 \<and> body x = doc
           \<and> ended x \<and> headers x ''Content-Type'' = Some ''application/json''
           \<and> invoked x = [(tool, params)] \<and> console x = []
           \<and> (\<forall>j. v = of_json j \<longrightarrow> doc = Some (JObj [(''result'', j)]))"
proof -
  have json: "\<forall>j. v = of_json j \<longrightarrow> doc = Some (JObj [(''result'', j)])"
    using assms(9) by (auto simp: JSON_stringify_def serialize_of_json)
  show ?thesis
    using json by (simp add: found_resolved [where JSON_parse = JSON_parse, OF assms] exchange_simps)
qed

text \<open>The specification's scenario: \<^verbatim>\<open>echo\<close> called with \<^verbatim>\<open>{"x":1}\<close>.\<close>

theorem tool_call_success_witness:
  "returned (handleRequest sample_parse [echo_tool] (post body_echo))
   \<and> statusCode (exchange_of (handleRequest sample_parse [echo_tool] (post body_echo))) = 200
   \<and> body (exchange_of (handleRequest sample_parse [echo_tool] (post body_echo))) =
       Some (JObj [(''result'', JObj [(''x'', JNum ''1'')])])"
proof -
  let ?request = "VObj [(''type'', VStr ''tool_call''), (''tool_name'', VStr ''echo''),
                        (''parameters'', VObj [(''x'', VNum (Finite ''1''))])]"
  have "\<exists>x. handleRequest sample_parse [echo_tool] (post body_echo) = Returns x
          \<and> statusCode x = 200 \<and> body x = Some (JObj [(''result'', JObj [(''x'', JNum ''1'')])])
          \<and> ended x \<and> headers x ''Content-Type'' = Some ''application/json''
          \<and> invoked x = [(echo_tool, VObj [(''x'', VNum (Finite ''1''))])] \<and> console x = []
          \<and> (\<forall>j. VObj [(''x'', VNum (Finite ''1''))] = of_json j \<longrightarrow>
                Some (JObj [(''result'', JObj [(''x'', JNum ''1'')])]) =
                Some (JObj [(''result'', j)]))"
  proof (rule tool_call_success [where request = ?request and tool_name = "VStr ''echo''"])
    show "req_method (post body_echo) = ''POST''" by (simp add: post_def)
    show "stream_error (post body_echo) = None" by (simp add: post_def)
    show "sample_parse (concat (chunks (post body_echo))) = Inr ?request"
      by (simp add: sample_defs)
    show "Get ?request ''type'' = Inr (VStr ''tool_call'')" by simp
    show "Get ?request ''tool_name'' = Inr (VStr ''echo'')" by simp
    show "Get ?request ''parameters'' = Inr (VObj [(''x'', VNum (Finite ''1''))])" by simp
    show "find (\<lambda>t. VStr (name t) = VStr ''echo'') [echo_tool] = Some echo_tool"
      by (simp add: echo_tool_def)
    show "execute echo_tool (VObj [(''x'', VNum (Finite ''1''))]) =
            Resolved (VObj [(''x'', VNum (Finite ''1''))])"
      by (simp add: echo_tool_def)
    show "JSON_stringify (VObj [(''result'', VObj [(''x'', VNum (Finite ''1''))])]) =
            Inr (Some (JObj [(''result'', JObj [(''x'', JNum ''1'')])]))"
      by (simp add: JSON_stringify_def)
  qed
  then show ?thesis by auto
qed

text \<open>
  The claim as stated, for every resolved value, fails on a BigInt: \<^verbatim>\<open>JSON.stringify\<close>
  throws inside the \<^verbatim>\<open>try\<close> block, and the \<^verbatim>\<open>catch\<close> block answers 500.
\<close>

theorem tool_call_bigint_counterexample:
  "sample_parse body_balance =
     Inr (VObj [(''type'', VStr ''tool_call''), (''tool_name'', VStr ''balance''),
                (''parameters'', VObj [])])
   \<and> execute balance_tool (VObj []) = Resolved (VBigInt 5000000000)
   \<and> returned (handleRequest sample_parse [echo_tool, balance_tool] (post body_balance))
   \<and> statusCode (exchange_of
        (handleRequest sample_parse [echo_tool, balance_tool] (post body_balance))) = 500
   \<and> body (exchange_of
        (handleRequest sample_parse [echo_tool, balance_tool] (post body_balance))) =
       Some (JObj [(''error'',
         JStr ''Error executing tool balance: Do not know how to serialize a BigInt'')])"
  by (simp add: dispatcher_defs sample_defs)

section \<open>The capability listing\<close>

text \<open>
  Claim C2, as the code has it. For every registered tool list whose declared schemas
  \<^verbatim>\<open>JSON.stringify\<close> can serialise, a \<^verbatim>\<open>POST\<close> request whose body parses to an envelope
  of type \<^verbatim>\<open>capabilities\<close> is answered with status 200 and the body
  \<^verbatim>\<open>{protocol_version: "0.1", capabilities: {tools: [...]}}\<close>, holding one descriptor per
  registered tool, in registration order, each with exactly the fields \<^verbatim>\<open>name\<close>,
  \<^verbatim>\<open>description\<close> and \<^verbatim>\<open>parameters\<close> (no \<^verbatim>\<open>execute\<close>); the \<^verbatim>\<open>parameters\<close> field is
  the serialisation of the tool's schema, and is the schema itself when that is plain JSON
  data. No tool is invoked.
\<close>

theorem capabilities_listing:
  assumes "req_method req = ''POST''" and "stream_error req = None"
    and "JSON_parse (concat (chunks req)) = Inr request"
    and "Get request ''type'' = Inr (VStr ''capabilities'')"
    and "list_all2 (\<lambda>t s. SerializeJSONObject (parameters t) = Inr s) ts schemas"
  shows "\<exists>x. handleRequest JSON_parse ts req = Returns x \<and> statusCode x = 200 \<and> ended x
           \<and> headers x ''Content-Type'' = Some ''application/json''
           \<and> body x = Some (JObj
                [(''protocol_version'', JStr ''0.1''),
                 (''capabilities'', JObj [(''tools'', JArr
                    (map2 (\<lambda>t s. JObj [(''name'', JStr (name t)),
                                        (''description'', JStr (description t)),
                                        (''parameters'', JObj s)]) ts schemas))])])
           \<and> length schemas = length ts
           \<and> (\<forall>i < length ts. \<forall>qs. parameters (ts ! i) = of_json_props qs \<longrightarrow> schemas ! i = qs)
           \<and> invoked x = []"
proof -
  have len: "length schemas = length ts"
    using assms(5) by (simp add: list_all2_lengthD)
  have same: "\<forall>i < length ts. \<forall>qs. parameters (ts ! i) = of_json_props qs \<longrightarrow> schemas ! i = qs"
  proof (intro allI impI)
    fix i qs assume "i < length ts" and "parameters (ts ! i) = of_json_props qs"
    moreover from list_all2_nthD [OF assms(5) \<open>i < length ts\<close>]
    have "SerializeJSONObject (parameters (ts ! i)) = Inr (schemas ! i)" .
    ultimately show "schemas ! i = qs" by (simp add: serialize_of_json)
  qed
  have "handleCapabilitiesRequest
          ((cors_headers (fresh\<lparr>registry := ts\<rparr>))\<lparr>consumed := chunks req\<rparr>) =
     Returns (end_response (Some (JObj
                [(''protocol_version'', JStr ''0.1''),
                 (''capabilities'', JObj [(''tools'', JArr
                    (map2 (\<lambda>t s. JObj [(''name'', JStr (name t)),
                                        (''description'', JStr (description t)),
                                        (''parameters'', JObj s)]) ts schemas))])]))
        (setHeader ''Content-Type'' ''application/json''
           ((cors_headers (fresh\<lparr>registry := ts\<rparr>))\<lparr>consumed := chunks req,
              statusCode := 200\<rparr>)))"
    by (simp add: handleCapabilitiesRequest_def end_json_def JSON_stringify_def registry_start
        serialize_toolSchemas [OF assms(5)] PROTOCOL_VERSION_def)
  then show ?thesis
    using assms(1-4) len same
    by (simp add: handleRequest_POST route_capabilities exchange_simps)
qed

theorem capabilities_listing_witness:
  "returned (handleRequest sample_parse [echo_tool, failing_tool] (post body_capabilities))
   \<and> statusCode (exchange_of
        (handleRequest sample_parse [echo_tool, failing_tool] (post body_capabilities))) = 200
   \<and> body (exchange_of
        (handleRequest sample_parse [echo_tool, failing_tool] (post body_capabilities))) =
      Some (JObj
        [(''protocol_version'', JStr ''0.1''),
         (''capabilities'', JObj [(''tools'', JArr
            [JObj [(''name'', JStr ''echo''), (''description'', JStr ''Returns its input''),
                   (''parameters'', JObj [(''type'', JStr ''object'')])],
             JObj [(''name'', JStr ''fetch_wallet_data''),
                   (''description'', JStr ''Fetches wallet data''),
                   (''parameters'', JObj [(''type'', JStr ''object'')])]])])])"
proof -
  let ?request = "VObj [(''type'', VStr ''capabilities'')]"
  let ?schemas = "[[(''type'', JStr ''object'')], [(''type'', JStr ''object'')]]"
  have post: "req_method (post body_capabilities) = ''POST''"
    "stream_error (post body_capabilities) = None"
    by (simp_all add: post_def)
  have parse: "sample_parse (concat (chunks (post body_capabilities))) = Inr ?request"
    by (simp add: sample_defs)
  have ty: "Get ?request ''type'' = Inr (VStr ''capabilities'')" by simp
  have schemas: "list_all2 (\<lambda>t s. SerializeJSONObject (parameters t) = Inr s)
                   [echo_tool, failing_tool] ?schemas"
    by (simp add: echo_tool_def failing_tool_def)
  from capabilities_listing [where req = "post body_capabilities" and JSON_parse = sample_parse
      and request = ?request and ts = "[echo_tool, failing_tool]" and schemas = ?schemas,
      OF post parse ty schemas]
  show ?thesis by (auto simp: echo_tool_def failing_tool_def)
qed

text \<open>
  The claim as stated, for every registered tool list, fails on a schema holding a BigInt:
  \<^verbatim>\<open>JSON.stringify\<close> throws in \<^verbatim>\<open>handleCapabilitiesRequest\<close>, and the \<^verbatim>\<open>catch\<close> block
  of \<^verbatim>\<open>handleRequest\<close> answers 400.
\<close>

theorem capabilities_bigint_schema_counterexample:
  "sample_parse body_capabilities = Inr (VObj [(''type'', VStr ''capabilities'')])
   \<and> returned (handleRequest sample_parse [echo_tool, stake_tool] (post body_capabilities))
   \<and> statusCode (exchange_of
        (handleRequest sample_parse [echo_tool, stake_tool] (post body_capabilities))) = 400
   \<and> body (exchange_of
        (handleRequest sample_parse [echo_tool, stake_tool] (post body_capabilities))) =
       Some (JObj [(''error'', JStr ''Invalid request'')])"
  by (simp add: dispatcher_defs sample_defs)


section \<open>Failing tool calls\<close>




section \<open>Unknown tools\<close>

text \<open>
  Claim C4, as the code has it. A \<^verbatim>\<open>tool_call\<close> request whose \<^verbatim>\<open>tool_name\<close> equals no
  registered tool's name invokes no tool and is always answered with a structured error
  response, a body of the form \<^verbatim>\<open>{error: <text>}\<close>. When \<^verbatim>\<open>tool_name\<close> has a string
  form (a string has itself, a number the text \<^verbatim>\<open>Number::toString\<close> prints), the status
  is 404 and the error message is \<^verbatim>\<open>Tool not found: <name>\<close> with that string form. When
  it has none, the template literal throws and the \<^verbatim>\<open>catch\<close> block of
  \<^verbatim>\<open>handleRequest\<close> sends its 400 with the generic message.
\<close>

theorem unknown_tool_response:
  assumes "req_method req = ''POST''" and "stream_error req = None"
    and "JSON_parse (concat (chunks req)) = Inr request"
    and "Get request ''type'' = Inr (VStr ''tool_call'')"
    and "Get request ''tool_name'' = Inr tool_name"
    and "\<forall>t \<in> set ts. VStr (name t) \<noteq> tool_name"
  shows "\<exists>x. handleRequest JSON_parse ts req = Returns x \<and> ended x \<and> invoked x = []
           \<and> (\<exists>m. body x = Some (JObj [(''error'', JStr m)]))
           \<and> (\<forall>tn. ToString tool_name = Inr tn \<longrightarrow>
                 statusCode x = 404
                 \<and> body x = Some (JObj [(''error'', JStr (''Tool not found: '' @ tn))])
                 \<and> console x = [])
           \<and> (\<forall>n. tool_name = VStr n \<longrightarrow>
                 statusCode x = 404
                 \<and> body x = Some (JObj [(''error'', JStr (''Tool not found: '' @ n))]))
           \<and> (\<forall>e. ToString tool_name = Inl e \<longrightarrow>
                 statusCode x = 400
                 \<and> body x = Some (JObj [(''error'', JStr ''Invalid request'')])
                 \<and> console x = [(''Error processing request:'', e)])"
proof -
  from Get_VStr_object [OF assms(4)] obtain ps where obj: "request = VObj ps" ..
  then obtain params where params: "Get request ''parameters'' = Inr params"
    by simp
  from assms(6) have none: "find (\<lambda>t. VStr (name t) = tool_name) ts = None"
    by (auto simp: find_None_iff)
  let ?x0 = "(cors_headers (fresh\<lparr>registry := ts\<rparr>))\<lparr>consumed := chunks req\<rparr>"
  show ?thesis
  proof (cases "ToString tool_name")
    case (Inl e)
    then have "handleToolCallRequest request ?x0 = Throws e (?x0\<lparr>statusCode := 404\<rparr>)"
      using assms(5) params none by (simp add: handleToolCallRequest_def registry_start)
    moreover from Inl have "\<forall>n. tool_name \<noteq> VStr n" by auto
    ultimately show ?thesis
      using assms(1-4) Inl
      by (simp add: handleRequest_POST route_tool_call request_catch_returns exchange_simps)
  next
    case (Inr tn)
    then have "handleToolCallRequest request ?x0 =
        Returns (end_response (Some (JObj [(''error'', JStr (''Tool not found: '' @ tn))]))
                   (?x0\<lparr>statusCode := 404\<rparr>))"
      using assms(5) params none
      by (simp add: handleToolCallRequest_def end_json_error registry_start)
    moreover from Inr have "\<forall>n. tool_name = VStr n \<longrightarrow> tn = n" by auto
    ultimately show ?thesis
      using assms(1-4) Inr
      by (simp add: handleRequest_POST route_tool_call exchange_simps)
  qed
qed

text \<open>An unregistered name, and the number \<^verbatim>\<open>1e21\<close> as a name.\<close>

theorem unknown_tool_response_witness:
  "returned (handleRequest sample_parse [echo_tool, failing_tool] (post body_missing))
   \<and> statusCode (exchange_of
        (handleRequest sample_parse [echo_tool, failing_tool] (post body_missing))) = 404
   \<and> body (exchange_of
        (handleRequest sample_parse [echo_tool, failing_tool] (post body_missing))) =
      Some (JObj [(''error'', JStr ''Tool not found: missing'')])
   \<and> invoked (exchange_of
        (handleRequest sample_parse [echo_tool, failing_tool] (post body_missing))) = []
   \<and> statusCode (exchange_of
        (handleRequest sample_parse [echo_tool, failing_tool] (post body_number_name))) = 404
   \<and> body (exchange_of
        (handleRequest sample_parse [echo_tool, failing_tool] (post body_number_name))) =
      Some (JObj [(''error'', JStr ''Tool not found: 1e+21'')])"
proof -
  let ?request = "VObj [(''type'', VStr ''tool_call''), (''tool_name'', VStr ''missing''),
                        (''parameters'', VObj [])]"
  let ?numbered = "VObj [(''type'', VStr ''tool_call''), (''tool_name'', VNum (Finite ''1e+21''))]"
  have post: "req_method (post body_missing) = ''POST''" "stream_error (post body_missing) = None"
    by (simp_all add: post_def)
  have parse: "sample_parse (concat (chunks (post body_missing))) = Inr ?request"
    by (simp add: sample_defs)
  have ty: "Get ?request ''type'' = Inr (VStr ''tool_call'')"
    and tn: "Get ?request ''tool_name'' = Inr (VStr ''missing'')"
    by simp_all
  have absent: "\<forall>t \<in> set [echo_tool, failing_tool]. VStr (name t) \<noteq> VStr ''missing''"
    by (simp add: echo_tool_def failing_tool_def)
  have post': "req_method (post body_number_name) = ''POST''"
    "stream_error (post body_number_name) = None"
    by (simp_all add: post_def)
  have parse': "sample_parse (concat (chunks (post body_number_name))) = Inr ?numbered"
    by (simp add: sample_defs)
  have ty': "Get ?numbered ''type'' = Inr (VStr ''tool_call'')"
    and tn': "Get ?numbered ''tool_name'' = Inr (VNum (Finite ''1e+21''))"
    by simp_all
  have absent': "\<forall>t \<in> set [echo_tool, failing_tool]. VStr (name t) \<noteq> VNum (Finite ''1e+21'')"
    by simp
  have printed: "ToString (VNum (Finite ''1e+21'')) = Inr ''1e+21''"
    by simp
  from unknown_tool_response [where req = "post body_missing" and JSON_parse = sample_parse
      and ts = "[echo_tool, failing_tool]", OF post parse ty tn absent]
    unknown_tool_response [where req = "post body_number_name" and JSON_parse = sample_parse
      and ts = "[echo_tool, failing_tool]", OF post' parse' ty' tn' absent'] printed
  show ?thesis by auto
qed

text \<open>
  The claim as stated, status 404 for every unmatched \<^verbatim>\<open>tool_name\<close>, fails on the body
  \<^verbatim>\<open>{"type":"tool_call","tool_name":{"toString":1}}\<close>: the template literal of the 404
  message throws, and the \<^verbatim>\<open>catch\<close> block of \<^verbatim>\<open>handleRequest\<close> answers 400.
\<close>

theorem unknown_tool_counterexample:
  "sample_parse body_object_name =
     Inr (VObj [(''type'', VStr ''tool_call''),
                (''tool_name'', VObj [(''toString'', VNum (Finite ''1''))])])
   \<and> returned (handleRequest sample_parse [echo_tool, failing_tool] (post body_object_name))
   \<and> statusCode (exchange_of
        (handleRequest sample_parse [echo_tool, failing_tool] (post body_object_name))) = 400
   \<and> body (exchange_of
        (handleRequest sample_parse [echo_tool, failing_tool] (post body_object_name))) =
       Some (JObj [(''error'', JStr ''Invalid request'')])"
  by (simp add: dispatcher_defs sample_defs)

section \<open>Unparseable bodies\<close>

text \<open>
  Claim C5. A \<^verbatim>\<open>POST\<close> request whose body \<^verbatim>\<open>JSON.parse\<close> rejects is answered with
  status 400 and the fixed body \<^verbatim>\<open>{error: "Invalid request"}\<close>, whatever the parse
  failure says; the failure goes to \<^verbatim>\<open>console.error\<close> only, and no tool is invoked.
\<close>

theorem unparseable_body_response:
  assumes "req_method req = ''POST''" and "stream_error req = None"
    and "JSON_parse (concat (chunks req)) = Inl e"
  shows "\<exists>x. handleRequest JSON_parse ts req = Returns x \<and> statusCode x = 400
           \<and> body x = Some (JObj [(''error'', JStr ''Invalid request'')]) \<and> ended x
           \<and> console x = [(''Error processing request:'', e)] \<and> invoked x = []"
  using assms
  by (simp add: handleRequest_POST route_def request_catch_returns exchange_simps)

theorem unparseable_body_response_witness:
  "sample_parse body_truncated = Inl (ErrorObj ''Unexpected token'')
   \<and> returned (handleRequest sample_parse [echo_tool] (post body_truncated))
   \<and> statusCode (exchange_of (handleRequest sample_parse [echo_tool] (post body_truncated))) = 400
   \<and> body (exchange_of (handleRequest sample_parse [echo_tool] (post body_truncated))) =
       Some (JObj [(''error'', JStr ''Invalid request'')])
   \<and> console (exchange_of (handleRequest sample_parse [echo_tool] (post body_truncated))) =
       [(''Error processing request:'', ErrorObj ''Unexpected token'')]"
proof -
  have post: "req_method (post body_truncated) = ''POST''"
    "stream_error (post body_truncated) = None"
    by (simp_all add: post_def)
  have bad: "sample_parse body_truncated = Inl (ErrorObj ''Unexpected token'')"
    by (simp add: sample_defs)
  then have parse: "sample_parse (concat (chunks (post body_truncated))) =
                      Inl (ErrorObj ''Unexpected token'')"
    by (simp add: post_def)
  from unparseable_body_response [where req = "post body_truncated" and JSON_parse = sample_parse
      and ts = "[echo_tool]", OF post parse] bad
  show ?thesis by auto
qed

section \<open>Unknown request types\<close>

text \<open>
  Claim C6, as the code has it. A \<^verbatim>\<open>POST\<close> request whose body parses and whose
  \<^verbatim>\<open>type\<close> is neither \<^verbatim>\<open>capabilities\<close> nor \<^verbatim>\<open>tool_call\<close> is answered with status
  400, and no tool is invoked. When \<^verbatim>\<open>type\<close> can be read (the body is not \<^verbatim>\<open>null\<close>) and
  has a string form, the error message is \<^verbatim>\<open>Unknown request type: <type>\<close> with that
  string form. When \<^verbatim>\<open>type\<close> cannot be read, or has no string form, the error message
  is the generic \<^verbatim>\<open>Invalid request\<close> and the fault is logged.
\<close>

theorem unknown_type_response:
  assumes "req_method req = ''POST''" and "stream_error req = None"
    and "JSON_parse (concat (chunks req)) = Inr request"
    and "Get request ''type'' \<noteq> Inr (VStr ''capabilities'')"
    and "Get request ''type'' \<noteq> Inr (VStr ''tool_call'')"
  shows "\<exists>x. handleRequest JSON_parse ts req = Returns x \<and> statusCode x = 400 \<and> ended x
           \<and> invoked x = []
           \<and> (\<forall>ty s. Get request ''type'' = Inr ty \<longrightarrow> ToString ty = Inr s \<longrightarrow>
                 body x = Some (JObj [(''error'', JStr (''Unknown request type: '' @ s))])
                 \<and> console x = [])
           \<and> (\<forall>e. Get request ''type'' = Inl e \<longrightarrow>
                 body x = Some (JObj [(''error'', JStr ''Invalid request'')])
                 \<and> console x = [(''Error processing request:'', e)])
           \<and> (\<forall>ty e. Get request ''type'' = Inr ty \<longrightarrow> ToString ty = Inl e \<longrightarrow>
                 body x = Some (JObj [(''error'', JStr ''Invalid request'')])
                 \<and> console x = [(''Error processing request:'', e)])"
proof -
  let ?x0 = "(cors_headers (fresh\<lparr>registry := ts\<rparr>))\<lparr>consumed := chunks req\<rparr>"
  show ?thesis
  proof (cases "Get request ''type''")
    case (Inl e)
    then have "route JSON_parse (concat (chunks req)) ?x0 = Throws e ?x0"
      using assms(3) by (simp add: route_def)
    then show ?thesis
      using assms(1,2) Inl
      by (simp add: handleRequest_POST request_catch_returns exchange_simps)
  next
    case (Inr ty)
    with assms(4,5) have ne: "ty \<noteq> VStr ''capabilities''" "ty \<noteq> VStr ''tool_call''"
      by auto
    show ?thesis
    proof (cases "ToString ty")
      case (Inl e)
      then have "route JSON_parse (concat (chunks req)) ?x0 =
                   Throws e (?x0\<lparr>statusCode := 400\<rparr>)"
        using assms(3) Inr ne by (simp add: route_def)
      then show ?thesis
        using assms(1,2) Inr Inl
        by (simp add: handleRequest_POST request_catch_returns exchange_simps)
    next
      case ok: (Inr s)
      then have "route JSON_parse (concat (chunks req)) ?x0 =
          Returns (end_response (Some (JObj [(''error'', JStr (''Unknown request type: '' @ s))]))
                     (?x0\<lparr>statusCode := 400\<rparr>))"
        using assms(3) Inr ne by (simp add: route_def end_json_error)
      then show ?thesis
        using assms(1,2) Inr ok
        by (simp add: handleRequest_POST exchange_simps)
    qed
  qed
qed

theorem unknown_type_response_witness:
  "returned (handleRequest sample_parse [echo_tool] (post body_ping))
   \<and> statusCode (exchange_of (handleRequest sample_parse [echo_tool] (post body_ping))) = 400
   \<and> body (exchange_of (handleRequest sample_parse [echo_tool] (post body_ping))) =
       Some (JObj [(''error'', JStr ''Unknown request type: ping'')])"
proof -
  let ?request = "VObj [(''type'', VStr ''ping'')]"
  have post: "req_method (post body_ping) = ''POST''" "stream_error (post body_ping) = None"
    by (simp_all add: post_def)
  have parse: "sample_parse (concat (chunks (post body_ping))) = Inr ?request"
    by (simp add: sample_defs)
  have ne: "Get ?request ''type'' \<noteq> Inr (VStr ''capabilities'')"
    "Get ?request ''type'' \<noteq> Inr (VStr ''tool_call'')"
    by simp_all
  have ty: "Get ?request ''type'' = Inr (VStr ''ping'')" "ToString (VStr ''ping'') = Inr ''ping''"
    by simp_all
  from unknown_type_response [where req = "post body_ping" and JSON_parse = sample_parse
      and ts = "[echo_tool]", OF post parse ne] ty
  show ?thesis by auto
qed

text \<open>
  The claim as stated, a message naming the type for every such body, fails on the body
  \<^verbatim>\<open>null\<close>, where reading \<^verbatim>\<open>request.type\<close> throws, and on the body
  \<^verbatim>\<open>{"type":{"toString":1}}\<close>, where the template literal throws: both are answered by
  the \<^verbatim>\<open>catch\<close> block of \<^verbatim>\<open>handleRequest\<close> with the generic message.
\<close>

theorem unknown_type_counterexample:
  "sample_parse body_null = Inr VNull
   \<and> returned (handleRequest sample_parse [echo_tool] (post body_null))
   \<and> statusCode (exchange_of (handleRequest sample_parse [echo_tool] (post body_null))) = 400
   \<and> body (exchange_of (handleRequest sample_parse [echo_tool] (post body_null))) =
       Some (JObj [(''error'', JStr ''Invalid request'')])
   \<and> sample_parse body_object_type =
       Inr (VObj [(''type'', VObj [(''toString'', VNum (Finite ''1''))])])
   \<and> returned (handleRequest sample_parse [echo_tool] (post body_object_type))
   \<and> statusCode (exchange_of
        (handleRequest sample_parse [echo_tool] (post body_object_type))) = 400
   \<and> body (exchange_of (handleRequest sample_parse [echo_tool] (post body_object_type))) =
       Some (JObj [(''error'', JStr ''Invalid request'')])"
  by (simp add: dispatcher_defs sample_defs)

section \<open>The method gate\<close>

text \<open>
  Claim C7. A request whose method is neither \<^verbatim>\<open>POST\<close> nor \<^verbatim>\<open>OPTIONS\<close> is answered
  with status 405 and the body \<^verbatim>\<open>{error: "Method not allowed"}\<close>; no chunk of the body
  has been read, nothing is parsed or logged, and no tool is invoked.
\<close>

theorem method_not_allowed:
  assumes "req_method req \<noteq> ''POST''" and "req_method req \<noteq> ''OPTIONS''"
  shows "\<exists>x. handleRequest JSON_parse ts req = Returns x \<and> statusCode x = 405
           \<and> body x = Some (JObj [(''error'', JStr ''Method not allowed'')]) \<and> ended x
           \<and> consumed x = [] \<and> invoked x = [] \<and> console x = []"
  using assms
  by (simp add: handleRequest_def end_json_error exchange_simps)

theorem method_not_allowed_witness:
  "returned (handleRequest sample_parse [echo_tool]
       \<lparr>req_method = ''GET'', chunks = [body_echo], stream_error = None\<rparr>)
   \<and> statusCode (exchange_of (handleRequest sample_parse [echo_tool]
       \<lparr>req_method = ''GET'', chunks = [body_echo], stream_error = None\<rparr>)) = 405
   \<and> body (exchange_of (handleRequest sample_parse [echo_tool]
       \<lparr>req_method = ''GET'', chunks = [body_echo], stream_error = None\<rparr>)) =
       Some (JObj [(''error'', JStr ''Method not allowed'')])
   \<and> consumed (exchange_of (handleRequest sample_parse [echo_tool]
       \<lparr>req_method = ''GET'', chunks = [body_echo], stream_error = None\<rparr>)) = []
   \<and> invoked (exchange_of (handleRequest sample_parse [echo_tool]
       \<lparr>req_method = ''GET'', chunks = [body_echo], stream_error = None\<rparr>)) = []"
proof -
  let ?req = "\<lparr>req_method = ''GET'', chunks = [body_echo], stream_error = None\<rparr>"
  have m: "req_method ?req \<noteq> ''POST''" "req_method ?req \<noteq> ''OPTIONS''"
    by simp_all
  from method_not_allowed [where req = ?req and JSON_parse = sample_parse and ts = "[echo_tool]",
      OF m]
  show ?thesis by auto
qed

text \<open>
  Claim C8. A request with method \<^verbatim>\<open>OPTIONS\<close> is answered with status 204 and no body,
  whatever its body stream holds (none of it is read), with the three CORS headers set:
  any origin, the methods \<^verbatim>\<open>GET, POST, OPTIONS\<close>, the request header \<^verbatim>\<open>Content-Type\<close>.
\<close>

theorem options_preflight:
  assumes "req_method req = ''OPTIONS''"
  shows "\<exists>x. handleRequest JSON_parse ts req = Returns x \<and> statusCode x = 204
           \<and> body x = None \<and> ended x
           \<and> headers x ''Access-Control-Allow-Origin'' = Some ''*''
           \<and> headers x ''Access-Control-Allow-Methods'' = Some ''GET, POST, OPTIONS''
           \<and> headers x ''Access-Control-Allow-Headers'' = Some ''Content-Type''
           \<and> consumed x = [] \<and> invoked x = [] \<and> console x = []"
  using assms
  by (simp add: handleRequest_def exchange_simps)

theorem options_preflight_witness:
  "returned (handleRequest sample_parse [echo_tool]
       \<lparr>req_method = ''OPTIONS'', chunks = [body_echo], stream_error = None\<rparr>)
   \<and> statusCode (exchange_of (handleRequest sample_parse [echo_tool]
       \<lparr>req_method = ''OPTIONS'', chunks = [body_echo], stream_error = None\<rparr>)) = 204
   \<and> body (exchange_of (handleRequest sample_parse [echo_tool]
       \<lparr>req_method = ''OPTIONS'', chunks = [body_echo], stream_error = None\<rparr>)) = None"
proof -
  let ?req = "\<lparr>req_method = ''OPTIONS'', chunks = [body_echo], stream_error = None\<rparr>"
  have m: "req_method ?req = ''OPTIONS''" by simp
  from options_preflight [where req = ?req and JSON_parse = sample_parse and ts = "[echo_tool]",
      OF m]
  show ?thesis by auto
qed


section \<open>The registry across requests\<close>



text \<open>
  Claim C10. \<^verbatim>\<open>createMcpServer\<close> does not reject a tool list with repeated names: it
  returns its handler. A \<^verbatim>\<open>tool_call\<close> for a name is dispatched to the first tool
  registered under it, whatever is registered after it: that tool is the one invoked, with
  the request's parameters, and the answer is made from what its \<^verbatim>\<open>execute\<close> does (its
  result under status 200, its failure under status 500, no answer while it is unsettled).
\<close>

theorem first_registered_wins:
  assumes "h (tools opts) = before @ tool # after"
    and "\<forall>t \<in> set before. name t \<noteq> name tool"
    and "req_method req = ''POST''" and "stream_error req = None"
    and "JSON_parse (concat (chunks req)) = Inr request"
    and "Get request ''type'' = Inr (VStr ''tool_call'')"
    and "Get request ''tool_name'' = Inr (VStr (name tool))"
    and "Get request ''parameters'' = Inr params"
  shows "\<exists>handler c. createMcpServer JSON_parse opts = Inr handler
           \<and> handler h req = (c, h)
           \<and> invoked (exchange_of c) = [(tool, params)]
           \<and> (\<forall>v doc. execute tool params = Resolved v \<longrightarrow>
                 JSON_stringify (VObj [(''result'', v)]) = Inr doc \<longrightarrow>
                 returned c \<and> statusCode (exchange_of c) = 200 \<and> body (exchange_of c) = doc)
           \<and> (\<forall>err msg. execute tool params = Failed err \<longrightarrow>
                 failure_message err = Inr msg \<longrightarrow>
                 returned c \<and> statusCode (exchange_of c) = 500
                 \<and> body (exchange_of c) = Some (JObj [(''error'',
                      JStr (''Error executing tool '' @ name tool @ '': '' @ msg))]))
           \<and> (execute tool params = Unsettled \<longrightarrow> \<not> returned c)"
proof -
  let ?c = "handleRequest JSON_parse (h (tools opts)) req"
  let ?handle = "\<lambda>h req. let c = handleRequest JSON_parse (h (tools opts)) req
                          in (c, h(tools opts := registry (exchange_of c)))"
  have first: "find (\<lambda>t. VStr (name t) = VStr (name tool)) (h (tools opts)) = Some tool"
    unfolding assms(1) by (rule find_first_named [OF assms(2)])
  note call = assms(3-8) first
  have built: "createMcpServer JSON_parse opts = Inr ?handle"
    by (simp add: createMcpServer_def)
  have step: "?handle h req = (?c, h)"
    by (simp add: Let_def registry_handleRequest)
  have inv: "invoked (exchange_of ?c) = [(tool, params)]"
    by (rule invoked_found [where JSON_parse = JSON_parse, OF call])
  have resolved: "\<forall>v doc. execute tool params = Resolved v \<longrightarrow>
                 JSON_stringify (VObj [(''result'', v)]) = Inr doc \<longrightarrow>
                 returned ?c \<and> statusCode (exchange_of ?c) = 200 \<and> body (exchange_of ?c) = doc"
  proof (intro allI impI)
    fix v doc
    assume "execute tool params = Resolved v" "JSON_stringify (VObj [(''result'', v)]) = Inr doc"
    from found_resolved [where JSON_parse = JSON_parse, OF call this]
    show "returned ?c \<and> statusCode (exchange_of ?c) = 200 \<and> body (exchange_of ?c) = doc"
      by (simp add: exchange_simps)
  qed
  have failed: "\<forall>err msg. execute tool params = Failed err \<longrightarrow>
                 failure_message err = Inr msg \<longrightarrow>
                 returned ?c \<and> statusCode (exchange_of ?c) = 500
                 \<and> body (exchange_of ?c) = Some (JObj [(''error'',
                      JStr (''Error executing tool '' @ name tool @ '': '' @ msg))])"
  proof (intro allI impI)
    fix err msg
    assume "execute tool params = Failed err" and msg: "failure_message err = Inr msg"
    from found_failed [where JSON_parse = JSON_parse, OF call this(1)] msg
    show "returned ?c \<and> statusCode (exchange_of ?c) = 500
          \<and> body (exchange_of ?c) = Some (JObj [(''error'',
               JStr (''Error executing tool '' @ name tool @ '': '' @ msg))])"
      by (simp add: exchange_simps)
  qed
  have unsettled: "execute tool params = Unsettled \<longrightarrow> \<not> returned ?c"
  proof
    assume "execute tool params = Unsettled"
    from found_unsettled [where JSON_parse = JSON_parse, OF call this]
    show "\<not> returned ?c" by simp
  qed
  show ?thesis
  proof (intro exI conjI)
    show "createMcpServer JSON_parse opts = Inr ?handle" by (rule built)
    show "?handle h req = (?c, h)" by (rule step)
    show "invoked (exchange_of ?c) = [(tool, params)]" by (rule inv)
    show "\<forall>v doc. execute tool params = Resolved v \<longrightarrow>
                 JSON_stringify (VObj [(''result'', v)]) = Inr doc \<longrightarrow>
                 returned ?c \<and> statusCode (exchange_of ?c) = 200 \<and> body (exchange_of ?c) = doc"
      by (rule resolved)
    show "\<forall>err msg. execute tool params = Failed err \<longrightarrow>
                 failure_message err = Inr msg \<longrightarrow>
                 returned ?c \<and> statusCode (exchange_of ?c) = 500
                 \<and> body (exchange_of ?c) = Some (JObj [(''error'',
                      JStr (''Error executing tool '' @ name tool @ '': '' @ msg))])"
      by (rule failed)
    show "execute tool params = Unsettled \<longrightarrow> \<not> returned ?c" by (rule unsettled)
  qed
qed

text \<open>
  Two tools named \<^verbatim>\<open>version\<close>: the answer holds the first one's result, \<^verbatim>\<open>"1.0"\<close>.
\<close>

theorem first_registered_wins_witness:
  "name version_shadow = name version_tool
   \<and> returned (fst (projr (createMcpServer sample_parse sample_options)
        (heap_with [failing_tool, version_tool, version_shadow]) (post body_version)))
   \<and> body (exchange_of (fst (projr (createMcpServer sample_parse sample_options)
        (heap_with [failing_tool, version_tool, version_shadow]) (post body_version)))) =
      Some (JObj [(''result'', JStr ''1.0'')])
   \<and> invoked (exchange_of (fst (projr (createMcpServer sample_parse sample_options)
        (heap_with [failing_tool, version_tool, version_shadow]) (post body_version)))) =
      [(version_tool, VObj [(''verbose'', VBool True)])]"
proof -
  let ?request = "VObj [(''type'', VStr ''tool_call''), (''tool_name'', VStr ''version''),
                        (''parameters'', VObj [(''verbose'', VBool True)])]"
  let ?h = "heap_with [failing_tool, version_tool, version_shadow]"
  have held: "?h (tools sample_options) = [failing_tool] @ version_tool # [version_shadow]"
    by (simp add: heap_with_def sample_options_def)
  have earlier: "\<forall>t \<in> set [failing_tool]. name t \<noteq> name version_tool"
    by (simp add: version_tool_def failing_tool_def)
  have post: "req_method (post body_version) = ''POST''"
    "stream_error (post body_version) = None"
    by (simp_all add: post_def)
  have parse: "sample_parse (concat (chunks (post body_version))) = Inr ?request"
    by (simp add: sample_defs)
  have ty: "Get ?request ''type'' = Inr (VStr ''tool_call'')" by simp
  have tn: "Get ?request ''tool_name'' = Inr (VStr (name version_tool))"
    by (simp add: version_tool_def)
  have ps: "Get ?request ''parameters'' = Inr (VObj [(''verbose'', VBool True)])" by simp
  have same: "name version_shadow = name version_tool"
    by (simp add: version_tool_def version_shadow_def)
  have runs: "execute version_tool (VObj [(''verbose'', VBool True)]) = Resolved (VStr ''1.0'')"
    by (simp add: version_tool_def)
  have doc: "JSON_stringify (VObj [(''result'', VStr ''1.0'')]) =
               Inr (Some (JObj [(''result'', JStr ''1.0'')]))"
    by (simp add: JSON_stringify_def)
  from first_registered_wins [where h = ?h and opts = sample_options
      and JSON_parse = sample_parse and req = "post body_version",
      OF held earlier post parse ty tn ps]
  obtain handler c where "createMcpServer sample_parse sample_options = Inr handler"
    and "handler ?h (post body_version) = (c, ?h)"
    and "invoked (exchange_of c) = [(version_tool, VObj [(''verbose'', VBool True)])]"
    and "\<forall>v doc. execute version_tool (VObj [(''verbose'', VBool True)]) = Resolved v \<longrightarrow>
           JSON_stringify (VObj [(''result'', v)]) = Inr doc \<longrightarrow>
           returned c \<and> statusCode (exchange_of c) = 200 \<and> body (exchange_of c) = doc"
    by blast
  with same runs doc show ?thesis by simp
qed

end
